theory Spec2Isabelle
  imports Main "HOL-Library.Word" "HOL-Library.Sublist"
begin

unbundle bit_operations_syntax

section \<open>The bit-field classifier of \<open>src/inst_table.py\<close>\<close>

text \<open>
  Python integers are unbounded, so the two arguments of \<open>classify\<close> are of type \<open>int\<close>;
  \<open>x >> k\<close> is \<open>drop_bit k x\<close> and \<open>x & 1\<close> is \<open>x AND 1\<close>.  The only statement of the
  function that can raise is the subscript \<open>data_proc_map[opcode]\<close>; it is modelled with
  the error value \<open>KeyError\<close>.  A list assignment out of range raises \<open>IndexError\<close>.
\<close>

datatype py_error = KeyError | IndexError

definition data_proc_map :: "(int \<times> string) list" where
  "data_proc_map =
    [(0x0, ''AND''), (0x1, ''EOR''), (0x2, ''SUB''), (0x3, ''RSB''),
     (0x4, ''ADD''), (0x5, ''ADC''), (0x6, ''SBC''), (0x7, ''RSC''),
     (0x8, ''TST''), (0x9, ''TEQ''), (0xA, ''CMP''), (0xB, ''CMN''),
     (0xC, ''ORR''), (0xD, ''MOV''), (0xE, ''BIC''), (0xF, ''MVN'')]"

text \<open>
  The body is the decision list of the source, top to bottom.  Where the source nests an
  \<open>if\<close>/\<open>elif\<close> without \<open>else\<close> inside a rule (multiply, long multiply, swap, branch,
  coprocessor), control falls through to the next rule when no inner test holds; here
  the inner test is conjoined with the rule's guard, which is the same control flow.
  The branch rule occurs twice in the source and twice here.
\<close>

definition classify :: "int \<Rightarrow> int \<Rightarrow> py_error + string" where
  "classify bits_27_20 mul_swp_bit =
    (let b27 = drop_bit 7 bits_27_20 AND 1;
         b26 = drop_bit 6 bits_27_20 AND 1;
         b25 = drop_bit 5 bits_27_20 AND 1;
         b24 = drop_bit 4 bits_27_20 AND 1;
         b23 = drop_bit 3 bits_27_20 AND 1;
         b22 = drop_bit 2 bits_27_20 AND 1;
         b21 = drop_bit 1 bits_27_20 AND 1;
         b20 = bits_27_20 AND 1
     in
     if b27 = 0 \<and> b26 = 0 \<and> b25 = 0 \<and> b24 = 1 \<and> b23 = 0 \<and> b20 = 0 \<and> mul_swp_bit = 0 then
       (if b21 = 0 then Inr ''MRS'' else Inr ''MSR_REG'')
     else if b27 = 0 \<and> b26 = 0 \<and> b25 = 1 \<and> b24 = 1 \<and> b23 = 0 \<and> b20 = 0 \<and> mul_swp_bit = 0 then
       Inr ''MSR_IMM''
     else if (b27 = 0 \<and> b26 = 0 \<and> b25 = 0 \<and> b24 = 0 \<and> b23 = 0 \<and> b22 = 0 \<and> mul_swp_bit = 1)
             \<and> b21 = 0 then
       Inr (if b20 = 1 then ''MULS'' else ''MUL'')
     else if (b27 = 0 \<and> b26 = 0 \<and> b25 = 0 \<and> b24 = 0 \<and> b23 = 0 \<and> b22 = 0 \<and> mul_swp_bit = 1)
             \<and> b21 = 1 then
       Inr (if b20 = 1 then ''MLAS'' else ''MLA'')
     else if (b27 = 0 \<and> b26 = 0 \<and> b25 = 0 \<and> b24 = 0 \<and> b23 = 1 \<and> mul_swp_bit = 1)
             \<and> b22 = 0 \<and> b21 = 0 then
       Inr (if b20 = 1 then ''UMULLS'' else ''UMULL'')
     else if (b27 = 0 \<and> b26 = 0 \<and> b25 = 0 \<and> b24 = 0 \<and> b23 = 1 \<and> mul_swp_bit = 1)
             \<and> b22 = 0 \<and> b21 = 1 then
       Inr (if b20 = 1 then ''UMLALS'' else ''UMLAL'')
     else if (b27 = 0 \<and> b26 = 0 \<and> b25 = 0 \<and> b24 = 0 \<and> b23 = 1 \<and> mul_swp_bit = 1)
             \<and> b22 = 1 \<and> b21 = 0 then
       Inr (if b20 = 1 then ''SMULLS'' else ''SMULL'')
     else if (b27 = 0 \<and> b26 = 0 \<and> b25 = 0 \<and> b24 = 0 \<and> b23 = 1 \<and> mul_swp_bit = 1)
             \<and> b22 = 1 \<and> b21 = 1 then
       Inr (if b20 = 1 then ''SMLALS'' else ''SMLAL'')
     else if (b27 = 0 \<and> b26 = 0 \<and> b25 = 0 \<and> b24 = 1 \<and> b23 = 0 \<and> mul_swp_bit = 1)
             \<and> b22 = 0 then
       Inr ''SWP''
     else if (b27 = 0 \<and> b26 = 0 \<and> b25 = 0 \<and> b24 = 1 \<and> b23 = 0 \<and> mul_swp_bit = 1)
             \<and> b22 = 1 then
       Inr ''SWPB''
     else if b27 = 0 \<and> b26 = 0 \<and> mul_swp_bit = 0 then
       (let opcode = drop_bit 1 bits_27_20 AND 0xF;
            suffix = (if b25 = 1 then ''_IMM'' else ''_REG'')
        in if opcode \<in> set [0x8, 0x9, 0xA, 0xB] then
             (case map_of data_proc_map opcode of
                None \<Rightarrow> Inl KeyError
              | Some name \<Rightarrow> Inr (name @ suffix))
           else
             Inr ((case map_of data_proc_map opcode of
                     None \<Rightarrow> ''Other DP''
                   | Some name \<Rightarrow> name) @ suffix))
     else if b27 = 0 \<and> b26 = 1 \<and> mul_swp_bit = 0 then
       (if b20 = 0 \<and> b22 = 0 \<and> b25 = 0 then
          (if b24 = 0 then Inr ''STR_IMM_POST_WB''
           else Inr (if b21 = 1 then ''STR_IMM_PRE_WB'' else ''STR_IMM_PRE_NOWB''))
        else if b20 = 0 \<and> b22 = 0 \<and> b25 = 1 then
          (if b24 = 0 then Inr ''STR_REG_POST_WB''
           else Inr (if b21 = 1 then ''STR_REG_PRE_WB'' else ''STR_REG_PRE_NOWB''))
        else if b20 = 0 \<and> b22 = 1 \<and> b25 = 0 then
          (if b24 = 0 then Inr ''STRB_IMM_POST_WB''
           else Inr (if b21 = 1 then ''STRB_IMM_PRE_WB'' else ''STRB_IMM_PRE_NOWB''))
        else if b20 = 0 \<and> b22 = 1 \<and> b25 = 1 then
          (if b24 = 0 then Inr ''STRB_REG_POST_WB''
           else Inr (if b21 = 1 then ''STRB_REG_PRE_WB'' else ''STRB_REG_PRE_NOWB''))
        else if b20 = 1 \<and> b22 = 0 \<and> b25 = 0 then
          (if b24 = 0 then Inr ''LDR_IMM_POST_WB''
           else Inr (if b21 = 1 then ''LDR_IMM_PRE_WB'' else ''LDR_IMM_PRE_NOWB''))
        else if b20 = 1 \<and> b22 = 0 \<and> b25 = 1 then
          (if b24 = 0 then Inr ''LDR_REG_POST_WB''
           else Inr (if b21 = 1 then ''LDR_REG_PRE_WB'' else ''LDR_REG_PRE_NOWB''))
        else if b20 = 1 \<and> b22 = 1 \<and> b25 = 0 then
          (if b24 = 0 then Inr ''LDRB_IMM_POST_WB''
           else Inr (if b21 = 1 then ''LDRB_IMM_PRE_WB'' else ''LDRB_IMM_PRE_NOWB''))
        else if b20 = 1 \<and> b22 = 1 \<and> b25 = 1 then
          (if b24 = 0 then Inr ''LDRB_REG_POST_WB''
           else Inr (if b21 = 1 then ''LDRB_REG_PRE_WB'' else ''LDRB_REG_PRE_NOWB''))
        else Inr ''Other SDT'')
     else if (b27 = 1 \<and> b26 = 0 \<and> b25 = 1) \<and> b24 = 0 then Inr ''B''
     else if (b27 = 1 \<and> b26 = 0 \<and> b25 = 1) \<and> b24 = 1 then Inr ''BL''
     else if (b27 = 1 \<and> b26 = 0 \<and> b25 = 1) \<and> b24 = 0 then Inr ''B''
     else if (b27 = 1 \<and> b26 = 0 \<and> b25 = 1) \<and> b24 = 1 then Inr ''BL''
     else if b27 = 1 \<and> b26 = 0 \<and> b25 = 0 then
       (if b20 = 1 then Inr ''LDM'' else Inr ''STM'')
     else if b27 = 1 \<and> b26 = 1 \<and> b25 = 1 \<and> b24 = 1 then Inr ''SWI''
     else if (b27 = 1 \<and> b26 = 1 \<and> b24 = 0) \<and> b22 = 1 \<and> b20 = 1 then
       Inr (if b25 = 0 then ''LDC_IMM'' else ''LDC_REG'')
     else if (b27 = 1 \<and> b26 = 1 \<and> b24 = 0) \<and> b22 = 0 \<and> b20 = 1 then
       Inr (if b25 = 0 then ''LDC_IMM'' else ''LDC_REG'')
     else if (b27 = 1 \<and> b26 = 1 \<and> b24 = 0) \<and> b22 = 1 \<and> b20 = 0 then
       Inr (if b25 = 0 then ''STC_IMM'' else ''STC_REG'')
     else if (b27 = 1 \<and> b26 = 1 \<and> b24 = 0) \<and> b22 = 0 \<and> b20 = 0 then
       Inr (if b25 = 0 then ''STC_IMM'' else ''STC_REG'')
     else if (b27 = 1 \<and> b26 = 1 \<and> b24 = 0) \<and> b22 = 1 then Inr ''MRC''
     else if (b27 = 1 \<and> b26 = 1 \<and> b24 = 0) \<and> b22 = 0 then Inr ''MCR''
     else if b27 = 0 \<and> b26 = 0 \<and> b25 = 1 \<and> b24 = 0 \<and> b23 = 0 \<and> b22 = 1 \<and> b21 = 0 \<and> b20 = 0
             \<and> mul_swp_bit = 0 then
       Inr ''BX (possible)''
     else Inr ''Undefined/Reserved'')"

text \<open>
  The categories that the decision list returns for some input (see \<open>classify_range\<close>
  below); the strings \<open>MRC\<close>, \<open>MCR\<close>, \<open>BX (possible)\<close>, \<open>Other SDT\<close> and the
  \<open>Other DP\<close> names occur in the source but are not among them.
\<close>

definition classify_results :: "string list" where
  "classify_results =
    [''MRS'', ''MSR_REG'', ''MSR_IMM'', ''MULS'', ''MUL'', ''MLAS'', ''MLA'',
     ''UMULLS'', ''UMULL'', ''UMLALS'', ''UMLAL'', ''SMULLS'', ''SMULL'', ''SMLALS'', ''SMLAL'',
     ''SWP'', ''SWPB'',
     ''AND_IMM'', ''EOR_IMM'', ''SUB_IMM'', ''RSB_IMM'', ''ADD_IMM'', ''ADC_IMM'', ''SBC_IMM'',
     ''RSC_IMM'', ''TST_IMM'', ''TEQ_IMM'', ''CMP_IMM'', ''CMN_IMM'', ''ORR_IMM'', ''MOV_IMM'',
     ''BIC_IMM'', ''MVN_IMM'',
     ''AND_REG'', ''EOR_REG'', ''SUB_REG'', ''RSB_REG'', ''ADD_REG'', ''ADC_REG'', ''SBC_REG'',
     ''RSC_REG'', ''TST_REG'', ''TEQ_REG'', ''CMP_REG'', ''CMN_REG'', ''ORR_REG'', ''MOV_REG'',
     ''BIC_REG'', ''MVN_REG'',
     ''STR_IMM_POST_WB'', ''STR_IMM_PRE_WB'', ''STR_IMM_PRE_NOWB'',
     ''STR_REG_POST_WB'', ''STR_REG_PRE_WB'', ''STR_REG_PRE_NOWB'',
     ''STRB_IMM_POST_WB'', ''STRB_IMM_PRE_WB'', ''STRB_IMM_PRE_NOWB'',
     ''STRB_REG_POST_WB'', ''STRB_REG_PRE_WB'', ''STRB_REG_PRE_NOWB'',
     ''LDR_IMM_POST_WB'', ''LDR_IMM_PRE_WB'', ''LDR_IMM_PRE_NOWB'',
     ''LDR_REG_POST_WB'', ''LDR_REG_PRE_WB'', ''LDR_REG_PRE_NOWB'',
     ''LDRB_IMM_POST_WB'', ''LDRB_IMM_PRE_WB'', ''LDRB_IMM_PRE_NOWB'',
     ''LDRB_REG_POST_WB'', ''LDRB_REG_PRE_WB'', ''LDRB_REG_PRE_NOWB'',
     ''B'', ''BL'', ''LDM'', ''STM'', ''SWI'',
     ''LDC_IMM'', ''LDC_REG'', ''STC_IMM'', ''STC_REG'',
     ''Undefined/Reserved'']"

definition type_to_handler :: "(string \<times> string) list" where
  "type_to_handler =
  [
   (''LDR_IMM_PRE_WB'', ''exec_arm_ldr_imm_pre_wb''),
   (''LDR_IMM_PRE_NOWB'', ''exec_arm_ldr_imm_pre_nowb''),
   (''LDR_IMM_POST_WB'', ''exec_arm_ldr_imm_post_wb''),
   (''LDR_IMM_POST_NOWB'', ''exec_arm_ldr_imm_post_nowb''),
   (''LDR_REG_PRE_WB'', ''exec_arm_ldr_reg_pre_wb''),
   (''LDR_REG_PRE_NOWB'', ''exec_arm_ldr_reg_pre_nowb''),
   (''LDR_REG_POST_WB'', ''exec_arm_ldr_reg_post_wb''),
   (''LDR_REG_POST_NOWB'', ''exec_arm_ldr_reg_post_nowb''),
   (''LDRB_IMM_PRE_WB'', ''exec_arm_ldrb_imm_pre_wb''),
   (''LDRB_IMM_PRE_NOWB'', ''exec_arm_ldrb_imm_pre_nowb''),
   (''LDRB_IMM_POST_WB'', ''exec_arm_ldrb_imm_post_wb''),
   (''LDRB_IMM_POST_NOWB'', ''exec_arm_ldrb_imm_post_nowb''),
   (''LDRB_REG_PRE_WB'', ''exec_arm_ldrb_reg_pre_wb''),
   (''LDRB_REG_PRE_NOWB'', ''exec_arm_ldrb_reg_pre_nowb''),
   (''LDRB_REG_POST_WB'', ''exec_arm_ldrb_reg_post_wb''),
   (''LDRB_REG_POST_NOWB'', ''exec_arm_ldrb_reg_post_nowb''),
   (''STR_IMM_PRE_WB'', ''exec_arm_str_imm_pre_wb''),
   (''STR_IMM_PRE_NOWB'', ''exec_arm_str_imm_pre_nowb''),
   (''STR_IMM_POST_WB'', ''exec_arm_str_imm_post_wb''),
   (''STR_IMM_POST_NOWB'', ''exec_arm_str_imm_post_nowb''),
   (''STR_REG_PRE_WB'', ''exec_arm_str_reg_pre_wb''),
   (''STR_REG_PRE_NOWB'', ''exec_arm_str_reg_pre_nowb''),
   (''STR_REG_POST_WB'', ''exec_arm_str_reg_post_wb''),
   (''STR_REG_POST_NOWB'', ''exec_arm_str_reg_post_nowb''),
   (''STRB_IMM_PRE_WB'', ''exec_arm_strb_imm_pre_wb''),
   (''STRB_IMM_PRE_NOWB'', ''exec_arm_strb_imm_pre_nowb''),
   (''STRB_IMM_POST_WB'', ''exec_arm_strb_imm_post_wb''),
   (''STRB_IMM_POST_NOWB'', ''exec_arm_strb_imm_post_nowb''),
   (''STRB_REG_PRE_WB'', ''exec_arm_strb_reg_pre_wb''),
   (''STRB_REG_PRE_NOWB'', ''exec_arm_strb_reg_pre_nowb''),
   (''STRB_REG_POST_WB'', ''exec_arm_strb_reg_post_wb''),
   (''STRB_REG_POST_NOWB'', ''exec_arm_strb_reg_post_nowb''),
   (''MLA'', ''exec_arm_mla''),
   (''MLAS'', ''exec_arm_mla''),
   (''MUL'', ''exec_arm_mul''),
   (''MULS'', ''exec_arm_mul''),
   (''SMLAL'', ''exec_arm_smlal''),
   (''SMLALS'', ''exec_arm_smlal''),
   (''SMULL'', ''exec_arm_smull''),
   (''SMULLS'', ''exec_arm_smull''),
   (''SWP'', ''exec_arm_swp''),
   (''SWPB'', ''exec_arm_swpb''),
   (''UMLAL'', ''exec_arm_umlal''),
   (''UMLALS'', ''exec_arm_umlal''),
   (''UMULL'', ''exec_arm_umull''),
   (''UMULLS'', ''exec_arm_umull''),
   (''ADC_IMM'', ''exec_arm_adc_imm''),
   (''ADC_REG'', ''exec_arm_adc_reg''),
   (''ADD_IMM'', ''exec_arm_add_imm''),
   (''ADD_REG'', ''exec_arm_add_reg''),
   (''AND_IMM'', ''exec_arm_and_imm''),
   (''AND_REG'', ''exec_arm_and_reg''),
   (''BIC_IMM'', ''exec_arm_bic_imm''),
   (''BIC_REG'', ''exec_arm_bic_reg''),
   (''CMN_IMM'', ''exec_arm_cmn_imm''),
   (''CMN_REG'', ''exec_arm_cmn_reg''),
   (''CMP_IMM'', ''exec_arm_cmp_imm''),
   (''CMP_REG'', ''exec_arm_cmp_reg''),
   (''EOR_IMM'', ''exec_arm_eor_imm''),
   (''EOR_REG'', ''exec_arm_eor_reg''),
   (''MOV_IMM'', ''exec_arm_mov_imm''),
   (''MOV_REG'', ''exec_arm_mov_reg''),
   (''MVN_IMM'', ''exec_arm_mvn_imm''),
   (''MVN_REG'', ''exec_arm_mvn_reg''),
   (''ORR_IMM'', ''exec_arm_orr_imm''),
   (''ORR_REG'', ''exec_arm_orr_reg''),
   (''RSB_IMM'', ''exec_arm_rsb_imm''),
   (''RSB_REG'', ''exec_arm_rsb_reg''),
   (''RSC_IMM'', ''exec_arm_rsc_imm''),
   (''RSC_REG'', ''exec_arm_rsc_reg''),
   (''SBC_IMM'', ''exec_arm_sbc_imm''),
   (''SBC_REG'', ''exec_arm_sbc_reg''),
   (''SUB_IMM'', ''exec_arm_sub_imm''),
   (''SUB_REG'', ''exec_arm_sub_reg''),
   (''TEQ_IMM'', ''exec_arm_teq_imm''),
   (''TEQ_REG'', ''exec_arm_teq_reg''),
   (''TST_IMM'', ''exec_arm_tst_imm''),
   (''TST_REG'', ''exec_arm_tst_reg''),
   (''B'', ''exec_arm_b''),
   (''BL'', ''exec_arm_bl''),
   (''LDM'', ''exec_arm_ldm''),
   (''STM'', ''exec_arm_stm''),
   (''SWI'', ''exec_arm_software_interrupt''),
   (''LDC_IMM'', ''exec_arm_ldc_imm''),
   (''LDC_REG'', ''exec_arm_ldc_reg''),
   (''MCR'', ''exec_arm_mcr''),
   (''MRC'', ''exec_arm_mrc''),
   (''STC_IMM'', ''exec_arm_stc_imm''),
   (''STC_REG'', ''exec_arm_stc_reg''),
   (''BX (possible)'', ''exec_arm_bx_possible''),
   (''MRS'', ''exec_arm_mrs''),
   (''MSR_REG'', ''exec_arm_msr_reg''),
   (''MSR_IMM'', ''exec_arm_msr_imm''),
   (''Undefined/Reserved'', ''exec_arm_undefined'')
  ]"

section \<open>The dispatch table builder\<close>

text \<open>
  A dictionary literal is an association list in the order of the source, read with
  \<open>map_of\<close>; \<open>dict_get\<close> is Python's \<open>d.get(key, default)\<close>.
\<close>

definition dict_get :: "('k \<times> 'v) list \<Rightarrow> 'k \<Rightarrow> 'v \<Rightarrow> 'v" where
  "dict_get d k dflt = (case map_of d k of None \<Rightarrow> dflt | Some v \<Rightarrow> v)"

text \<open>
  \<open>xs[i] = v\<close> on a Python list: a negative index counts from the end, and an index
  out of range raises.
\<close>

definition list_assign :: "'a list \<Rightarrow> int \<Rightarrow> 'a \<Rightarrow> py_error + 'a list" where
  "list_assign xs i v =
    (let n = int (length xs); j = (if i < 0 then n + i else i)
     in if 0 \<le> j \<and> j < n then Inr (xs[nat j := v]) else Inl IndexError)"

text \<open>
  The module-level loop \<open>for idx in range(256): for mul_swp_bit in (0, 1): ...\<close>.
  \<open>build_keys\<close> lists the pairs \<open>(idx, mul_swp_bit)\<close> in the order the two nested loops
  visit them, \<open>new_idx\<close> is the index the body writes, and \<open>build_step\<close> is the body;
  the array starts as \<open>[None] * 512\<close>.
\<close>

definition build_keys :: "(int \<times> int) list" where
  "build_keys = concat (map (\<lambda>idx. map (\<lambda>mul_swp_bit. (idx, mul_swp_bit)) [0, 1]) (map int [0..<256]))"

definition new_idx :: "int \<times> int \<Rightarrow> int" where
  "new_idx p = (case p of (idx, mul_swp_bit) \<Rightarrow> push_bit 1 idx OR mul_swp_bit)"

definition build_step ::
  "int \<times> int \<Rightarrow> py_error + string option list \<Rightarrow> py_error + string option list" where
  "build_step p acc =
    (case acc of
       Inl e \<Rightarrow> Inl e
     | Inr arr \<Rightarrow>
        (case classify (fst p) (snd p) of
           Inl e \<Rightarrow> Inl e
         | Inr mnemonic \<Rightarrow>
             list_assign arr (new_idx p)
               (Some (dict_get type_to_handler mnemonic ''exec_arm_undefined''))))"

definition handler_array :: "py_error + string option list" where
  "handler_array = fold build_step build_keys (Inr (replicate 512 None))"

section \<open>The pattern-compressing emitter\<close>

text \<open>
  \<open>emit_repeat_macro\<close> returns a line of C text: a macro call, padding and a comment
  with the index range.  The line is modelled by the macro call it holds (one
  constructor per macro of the boilerplate, \<open>Listing\<close> for the explicit comma-separated
  fallback) together with the \<open>start\<close> and \<open>count\<close> the comment is printed from.
  \<open>expand\<close> is the meaning the \<open>#define\<close> lines of the boilerplate give to each call.
\<close>

datatype handler_arg = Single string | Pair string string

datatype macro_call =
    ARM_FN string
  | REPEAT_2 string
  | REPEAT_4 string
  | REPEAT_8 string
  | REPEAT_16 string
  | REPEAT_32 string
  | REPEAT_64 string
  | REPEAT_128 string
  | REPEAT_ALT string string
  | REPEAT_2ALT string string
  | Listing "string list"

record emission =
  code :: macro_call
  range_start :: nat
  range_count :: nat

definition repeat_8 :: "string \<Rightarrow> string list" where
  "repeat_8 h = [h, h, h, h, h, h, h, h]"

definition repeat_16 :: "string \<Rightarrow> string list" where
  "repeat_16 h = repeat_8 h @ repeat_8 h"

definition repeat_32 :: "string \<Rightarrow> string list" where
  "repeat_32 h = repeat_16 h @ repeat_16 h"

definition repeat_64 :: "string \<Rightarrow> string list" where
  "repeat_64 h = repeat_32 h @ repeat_32 h"

definition repeat_128 :: "string \<Rightarrow> string list" where
  "repeat_128 h = repeat_64 h @ repeat_64 h"

fun expand :: "macro_call \<Rightarrow> string list" where
  "expand (ARM_FN h) = [h]"
| "expand (REPEAT_2 h) = [h, h]"
| "expand (REPEAT_4 h) = [h, h, h, h]"
| "expand (REPEAT_8 h) = repeat_8 h"
| "expand (REPEAT_16 h) = repeat_16 h"
| "expand (REPEAT_32 h) = repeat_32 h"
| "expand (REPEAT_64 h) = repeat_64 h"
| "expand (REPEAT_128 h) = repeat_128 h"
| "expand (REPEAT_ALT a b) = [a, b, a, b]"
| "expand (REPEAT_2ALT a b) = [a, a, b, b, a, a, b, b]"
| "expand (Listing hs) = hs"

definition expand_all :: "emission list \<Rightarrow> string list" where
  "expand_all out = concat (map (\<lambda>e. expand (code e)) out)"

text \<open>
  The second test \<open>count == 4\<close> of the tuple case is written as in the source, after
  the first one.
\<close>

fun emit_repeat_macro :: "handler_arg \<Rightarrow> nat \<Rightarrow> nat \<Rightarrow> emission" where
  "emit_repeat_macro (Pair a b) count start =
    \<lparr>code =
       (if count = 4 then REPEAT_ALT a b
        else if count = 4 then REPEAT_2ALT a b
        else Listing (map (\<lambda>i. if i mod 2 = 0 then a else b) [0..<count])),
     range_start = start, range_count = count\<rparr>"
| "emit_repeat_macro (Single handler) count start =
    \<lparr>code =
       (if count = 1 then ARM_FN handler
        else if count = 2 then REPEAT_2 handler
        else if count = 4 then REPEAT_4 handler
        else if count = 8 then REPEAT_8 handler
        else if count = 16 then REPEAT_16 handler
        else if count = 32 then REPEAT_32 handler
        else if count = 64 then REPEAT_64 handler
        else if count = 128 then REPEAT_128 handler
        else Listing (map (\<lambda>_. handler) [0..<count])),
     range_start = start, range_count = count\<rparr>"

definition macros :: "nat list" where
  "macros = [128, 64, 32, 16, 8, 4, 2, 1]"

text \<open>The two four-entry pattern tests of \<open>generate_cpp_table\<close>, each a \<open>for j in range(4)\<close>.\<close>

definition ababab :: "string list \<Rightarrow> nat \<Rightarrow> bool" where
  "ababab ha i =
    (let a = ha ! i; b = ha ! (i + 1)
     in list_all (\<lambda>j. ha ! (i + j) = (if j mod 2 = 0 then a else b)) [0..<4])"

definition aabbaabb :: "string list \<Rightarrow> nat \<Rightarrow> bool" where
  "aabbaabb ha i =
    (let a = ha ! i; b = ha ! (i + 2)
     in list_all (\<lambda>j. ha ! (i + j) = (if j < 2 then a else b)) [0..<4])"

text \<open>\<open>while i + count < n and handler_array[i + count] == handler: count += 1\<close>\<close>

function run_length :: "string list \<Rightarrow> nat \<Rightarrow> string \<Rightarrow> nat \<Rightarrow> nat" where
  "run_length ha i handler count =
    (if i + count < length ha \<and> ha ! (i + count) = handler
     then run_length ha i handler (count + 1) else count)"
  by pat_completeness auto
termination
  by (relation "measure (\<lambda>(ha, i, handler, count). length ha - (i + count))") auto

declare run_length.simps [simp del]

text \<open>
  \<open>while count > 0: for m in macros: if count >= m: ...; break\<close>.  The \<open>for\<close> loop
  stops at the first macro size that fits; if none fitted, the \<open>while\<close> loop would go
  round with the same \<open>count\<close>.  The result is the output list and the final \<open>start\<close>.
\<close>

function decompose :: "string \<Rightarrow> emission list \<Rightarrow> nat \<Rightarrow> nat \<Rightarrow> emission list \<times> nat" where
  "decompose handler output start count =
    (if count > 0 then
       (case find (\<lambda>m. count \<ge> m) macros of
          Some m \<Rightarrow>
            decompose handler (output @ [emit_repeat_macro (Single handler) m start])
              (start + m) (count - m)
        | None \<Rightarrow> decompose handler output start count)
     else (output, start))"
  by pat_completeness auto
termination
proof (relation "measure (\<lambda>(handler, output, start, count). count)")
  show "wf (measure (\<lambda>(handler, output, start, count). count))"
    by simp
next
  fix handler :: string and out :: "emission list" and start count m :: nat
  assume "0 < count" and "find (\<lambda>m. m \<le> count) macros = Some m"
  then have "m \<in> set macros"
    by (auto simp: find_Some_iff)
  then have "0 < m"
    by (auto simp: macros_def)
  with \<open>0 < count\<close>
  show "((handler, out @ [emit_repeat_macro (Single handler) m start], start + m, count - m),
         (handler, out, start, count)) \<in> measure (\<lambda>(handler, output, start, count). count)"
    by simp
next
  fix handler :: string and out :: "emission list" and start count :: nat
  assume "0 < count" and none: "find (\<lambda>m. m \<le> count) macros = None"
  then have "1 \<le> count" by simp
  with none have False
    by (simp add: macros_def split: if_splits)
  then show "((handler, out, start, count), (handler, out, start, count))
         \<in> measure (\<lambda>(handler, output, start, count). count)" ..
qed

declare decompose.simps [simp del]

text \<open>
  The outer \<open>while i < n\<close> loop of \<open>generate_cpp_table\<close>; \<open>output\<close> is the list the
  source appends to.  Both pattern branches call \<open>emit_repeat_macro((a, b), 4, i)\<close>.
\<close>

function gen_loop :: "string list \<Rightarrow> emission list \<Rightarrow> nat \<Rightarrow> emission list" where
  "gen_loop ha output i =
    (let n = length ha in
     if i < n then
       (if i + 3 < n \<and> ababab ha i \<and> ha ! i \<noteq> ha ! (i + 1) then
          gen_loop ha (output @ [emit_repeat_macro (Pair (ha ! i) (ha ! (i + 1))) 4 i]) (i + 4)
        else if i + 3 < n \<and> aabbaabb ha i \<and> ha ! i \<noteq> ha ! (i + 2) then
          gen_loop ha (output @ [emit_repeat_macro (Pair (ha ! i) (ha ! (i + 2))) 4 i]) (i + 4)
        else
          (let handler = ha ! i;
               r = decompose handler output i (run_length ha i handler 1)
           in gen_loop ha (fst r) (snd r)))
     else output)"
  by pat_completeness auto
termination
proof (relation "measure (\<lambda>(ha, out, i). length ha - i)")
  show "wf (measure (\<lambda>(ha, out, i). length ha - i))"
    by simp
next
  fix ha :: "string list" and out :: "emission list" and i n :: nat
  assume "n = length ha" and "i < n"
  then show "((ha, out @ [emit_repeat_macro (Pair (ha ! i) (ha ! (i + 1))) 4 i], i + 4), (ha, out, i))
      \<in> measure (\<lambda>(ha, out, i). length ha - i)"
    by simp
next
  fix ha :: "string list" and out :: "emission list" and i n :: nat
  assume "n = length ha" and "i < n"
  then show "((ha, out @ [emit_repeat_macro (Pair (ha ! i) (ha ! (i + 2))) 4 i], i + 4), (ha, out, i))
      \<in> measure (\<lambda>(ha, out, i). length ha - i)"
    by simp
next
  fix ha :: "string list" and out :: "emission list" and i n :: nat
    and handler :: string and r :: "emission list \<times> nat"
  assume n: "n = length ha" and i: "i < n"
    and r: "r = decompose handler out i (run_length ha i handler 1)"
  have adv: "snd (decompose h xs s c) = s + c" for h xs s c
  proof (induction h xs s c rule: decompose.induct)
    case (1 h xs s c)
    show ?case
    proof (cases "0 < c")
      case False
      then show ?thesis by (subst decompose.simps) simp
    next
      case True
      then have "1 \<le> c" by simp
      then obtain m where m: "find (\<lambda>m. m \<le> c) macros = Some m"
        by (cases "find (\<lambda>m. m \<le> c) macros") (simp_all add: macros_def split: if_splits)
      then have "m \<le> c"
        by (auto simp: find_Some_iff)
      with True m "1.IH"(2) [OF True m] show ?thesis
        by (subst decompose.simps) simp
    qed
  qed
  have ge: "c \<le> run_length xs j h c" for xs j h c
  proof (induction xs j h c rule: run_length.induct)
    case (1 xs j h c)
    show ?case
    proof (cases "j + c < length xs \<and> xs ! (j + c) = h")
      case True
      with "1.IH" show ?thesis by (subst run_length.simps) simp
    next
      case False
      then show ?thesis by (subst run_length.simps) auto
    qed
  qed
  from ge [of 1 ha i handler] have "i < snd r"
    by (simp add: r adv)
  with n i show "((ha, fst r, snd r), (ha, out, i)) \<in> measure (\<lambda>(ha, out, i). length ha - i)"
    by (cases r) auto
qed

declare gen_loop.simps [simp del]

definition generate_cpp_table :: "string list \<Rightarrow> emission list" where
  "generate_cpp_table ha = gen_loop ha [] 0"

text \<open>
  The number of one bits of a natural number, the quantity the specification compares
  the number of emitted blocks with.
\<close>

fun popcount :: "nat \<Rightarrow> nat" where
  "popcount n = (if n = 0 then 0 else n mod 2 + popcount (n div 2))"

declare popcount.simps [simp del]

section \<open>The cross-implementation validator of \<open>src/cross_check_tables.py\<close>\<close>

definition mgba_to_yours :: "(string \<times> string) list" where
  "mgba_to_yours =
  [
   (''AND_LSL'', ''exec_arm_and_reg''),
   (''AND_LSR'', ''exec_arm_and_reg''),
   (''AND_ASR'', ''exec_arm_and_reg''),
   (''AND_ROR'', ''exec_arm_and_reg''),
   (''ANDS_LSL'', ''exec_arm_and_reg''),
   (''ANDS_LSR'', ''exec_arm_and_reg''),
   (''ANDS_ASR'', ''exec_arm_and_reg''),
   (''ANDS_ROR'', ''exec_arm_and_reg''),
   (''EOR_LSL'', ''exec_arm_eor_reg''),
   (''EOR_LSR'', ''exec_arm_eor_reg''),
   (''EOR_ASR'', ''exec_arm_eor_reg''),
   (''EOR_ROR'', ''exec_arm_eor_reg''),
   (''EORS_LSL'', ''exec_arm_eor_reg''),
   (''EORS_LSR'', ''exec_arm_eor_reg''),
   (''EORS_ASR'', ''exec_arm_eor_reg''),
   (''EORS_ROR'', ''exec_arm_eor_reg''),
   (''SUB_LSL'', ''exec_arm_sub_reg''),
   (''SUB_LSR'', ''exec_arm_sub_reg''),
   (''SUB_ASR'', ''exec_arm_sub_reg''),
   (''SUB_ROR'', ''exec_arm_sub_reg''),
   (''SUBS_LSL'', ''exec_arm_sub_reg''),
   (''SUBS_LSR'', ''exec_arm_sub_reg''),
   (''SUBS_ASR'', ''exec_arm_sub_reg''),
   (''SUBS_ROR'', ''exec_arm_sub_reg''),
   (''RSB_LSL'', ''exec_arm_rsb_reg''),
   (''RSB_LSR'', ''exec_arm_rsb_reg''),
   (''RSB_ASR'', ''exec_arm_rsb_reg''),
   (''RSB_ROR'', ''exec_arm_rsb_reg''),
   (''RSBS_LSL'', ''exec_arm_rsb_reg''),
   (''RSBS_LSR'', ''exec_arm_rsb_reg''),
   (''RSBS_ASR'', ''exec_arm_rsb_reg''),
   (''RSBS_ROR'', ''exec_arm_rsb_reg''),
   (''ADD_LSL'', ''exec_arm_add_reg''),
   (''ADD_LSR'', ''exec_arm_add_reg''),
   (''ADD_ASR'', ''exec_arm_add_reg''),
   (''ADD_ROR'', ''exec_arm_add_reg''),
   (''ADDS_LSL'', ''exec_arm_add_reg''),
   (''ADDS_LSR'', ''exec_arm_add_reg''),
   (''ADDS_ASR'', ''exec_arm_add_reg''),
   (''ADDS_ROR'', ''exec_arm_add_reg''),
   (''ADC_LSL'', ''exec_arm_adc_reg''),
   (''ADC_LSR'', ''exec_arm_adc_reg''),
   (''ADC_ASR'', ''exec_arm_adc_reg''),
   (''ADC_ROR'', ''exec_arm_adc_reg''),
   (''ADCS_LSL'', ''exec_arm_adc_reg''),
   (''ADCS_LSR'', ''exec_arm_adc_reg''),
   (''ADCS_ASR'', ''exec_arm_adc_reg''),
   (''ADCS_ROR'', ''exec_arm_adc_reg''),
   (''SBC_LSL'', ''exec_arm_sbc_reg''),
   (''SBC_LSR'', ''exec_arm_sbc_reg''),
   (''SBC_ASR'', ''exec_arm_sbc_reg''),
   (''SBC_ROR'', ''exec_arm_sbc_reg''),
   (''SBCS_LSL'', ''exec_arm_sbc_reg''),
   (''SBCS_LSR'', ''exec_arm_sbc_reg''),
   (''SBCS_ASR'', ''exec_arm_sbc_reg''),
   (''SBCS_ROR'', ''exec_arm_sbc_reg''),
   (''RSC_LSL'', ''exec_arm_rsc_reg''),
   (''RSC_LSR'', ''exec_arm_rsc_reg''),
   (''RSC_ASR'', ''exec_arm_rsc_reg''),
   (''RSC_ROR'', ''exec_arm_rsc_reg''),
   (''RSCS_LSL'', ''exec_arm_rsc_reg''),
   (''RSCS_LSR'', ''exec_arm_rsc_reg''),
   (''RSCS_ASR'', ''exec_arm_rsc_reg''),
   (''RSCS_ROR'', ''exec_arm_rsc_reg''),
   (''MUL'', ''exec_arm_mul''),
   (''MULS'', ''exec_arm_mul''),
   (''MLA'', ''exec_arm_mla''),
   (''MLAS'', ''exec_arm_mla''),
   (''UMULL'', ''exec_arm_umull''),
   (''UMULLS'', ''exec_arm_umull''),
   (''UMLAL'', ''exec_arm_umlal''),
   (''UMLALS'', ''exec_arm_umlal''),
   (''SMULL'', ''exec_arm_smull''),
   (''SMULLS'', ''exec_arm_smull''),
   (''SMLAL'', ''exec_arm_smlal''),
   (''SMLALS'', ''exec_arm_smlal''),
   (''SWP'', ''exec_arm_swp''),
   (''SWPB'', ''exec_arm_swpb''),
   (''MRS'', ''exec_arm_mrs''),
   (''MSR'', ''exec_arm_msr''),
   (''MRSR'', ''exec_arm_undefined''),
   (''MSRR'', ''exec_arm_undefined''),
   (''TST_LSL'', ''exec_arm_tst_reg''),
   (''TST_LSR'', ''exec_arm_tst_reg''),
   (''TST_ASR'', ''exec_arm_tst_reg''),
   (''TST_ROR'', ''exec_arm_tst_reg''),
   (''TEQ_LSL'', ''exec_arm_teq_reg''),
   (''TEQ_LSR'', ''exec_arm_teq_reg''),
   (''TEQ_ASR'', ''exec_arm_teq_reg''),
   (''TEQ_ROR'', ''exec_arm_teq_reg''),
   (''CMP_LSL'', ''exec_arm_cmp_reg''),
   (''CMP_LSR'', ''exec_arm_cmp_reg''),
   (''CMP_ASR'', ''exec_arm_cmp_reg''),
   (''CMP_ROR'', ''exec_arm_cmp_reg''),
   (''CMN_LSL'', ''exec_arm_cmn_reg''),
   (''CMN_LSR'', ''exec_arm_cmn_reg''),
   (''CMN_ASR'', ''exec_arm_cmn_reg''),
   (''CMN_ROR'', ''exec_arm_cmn_reg''),
   (''ORR_LSL'', ''exec_arm_orr_reg''),
   (''ORR_LSR'', ''exec_arm_orr_reg''),
   (''ORR_ASR'', ''exec_arm_orr_reg''),
   (''ORR_ROR'', ''exec_arm_orr_reg''),
   (''ORRS_LSL'', ''exec_arm_orr_reg''),
   (''ORRS_LSR'', ''exec_arm_orr_reg''),
   (''ORRS_ASR'', ''exec_arm_orr_reg''),
   (''ORRS_ROR'', ''exec_arm_orr_reg''),
   (''MOV_LSL'', ''exec_arm_mov_reg''),
   (''MOV_LSR'', ''exec_arm_mov_reg''),
   (''MOV_ASR'', ''exec_arm_mov_reg''),
   (''MOV_ROR'', ''exec_arm_mov_reg''),
   (''MOVS_LSL'', ''exec_arm_mov_reg''),
   (''MOVS_LSR'', ''exec_arm_mov_reg''),
   (''MOVS_ASR'', ''exec_arm_mov_reg''),
   (''MOVS_ROR'', ''exec_arm_mov_reg''),
   (''BIC_LSL'', ''exec_arm_bic_reg''),
   (''BIC_LSR'', ''exec_arm_bic_reg''),
   (''BIC_ASR'', ''exec_arm_bic_reg''),
   (''BIC_ROR'', ''exec_arm_bic_reg''),
   (''BICS_LSL'', ''exec_arm_bic_reg''),
   (''BICS_LSR'', ''exec_arm_bic_reg''),
   (''BICS_ASR'', ''exec_arm_bic_reg''),
   (''BICS_ROR'', ''exec_arm_bic_reg''),
   (''MVN_LSL'', ''exec_arm_mvn_reg''),
   (''MVN_LSR'', ''exec_arm_mvn_reg''),
   (''MVN_ASR'', ''exec_arm_mvn_reg''),
   (''MVN_ROR'', ''exec_arm_mvn_reg''),
   (''MVNS_LSL'', ''exec_arm_mvn_reg''),
   (''MVNS_LSR'', ''exec_arm_mvn_reg''),
   (''MVNS_ASR'', ''exec_arm_mvn_reg''),
   (''MVNS_ROR'', ''exec_arm_mvn_reg''),
   (''ANDI'', ''exec_arm_and_imm''),
   (''ANDSI'', ''exec_arm_and_imm''),
   (''EORI'', ''exec_arm_eor_imm''),
   (''EORSI'', ''exec_arm_eor_imm''),
   (''SUBI'', ''exec_arm_sub_imm''),
   (''SUBSI'', ''exec_arm_sub_imm''),
   (''RSBI'', ''exec_arm_rsb_imm''),
   (''RSBSI'', ''exec_arm_rsb_imm''),
   (''ADDI'', ''exec_arm_add_imm''),
   (''ADDSI'', ''exec_arm_add_imm''),
   (''ADCI'', ''exec_arm_adc_imm''),
   (''ADCSI'', ''exec_arm_adc_imm''),
   (''SBCI'', ''exec_arm_sbc_imm''),
   (''SBCSI'', ''exec_arm_sbc_imm''),
   (''RSCI'', ''exec_arm_rsc_imm''),
   (''RSCSI'', ''exec_arm_rsc_imm''),
   (''TSTI'', ''exec_arm_tst_imm''),
   (''TEQI'', ''exec_arm_teq_imm''),
   (''CMPI'', ''exec_arm_cmp_imm''),
   (''CMNI'', ''exec_arm_cmn_imm''),
   (''ORRI'', ''exec_arm_orr_imm''),
   (''ORRSI'', ''exec_arm_orr_imm''),
   (''MOVI'', ''exec_arm_mov_imm''),
   (''MOVSI'', ''exec_arm_mov_imm''),
   (''BICI'', ''exec_arm_bic_imm''),
   (''BICSI'', ''exec_arm_bic_imm''),
   (''MVNI'', ''exec_arm_mvn_imm''),
   (''MVNSI'', ''exec_arm_mvn_imm''),
   (''STRI'', ''exec_arm_str_imm_pre_nowb''),
   (''LDRI'', ''exec_arm_ldr_imm_pre_nowb''),
   (''STRTI'', ''exec_arm_str_imm_pre_wb''),
   (''LDRTI'', ''exec_arm_ldr_imm_pre_wb''),
   (''STRBI'', ''exec_arm_strb_imm_pre_nowb''),
   (''LDRBI'', ''exec_arm_ldrb_imm_pre_nowb''),
   (''STRBTI'', ''exec_arm_strb_imm_pre_wb''),
   (''LDRBTI'', ''exec_arm_ldrb_imm_pre_wb''),
   (''STRIU'', ''exec_arm_str_imm_post_wb''),
   (''LDRIU'', ''exec_arm_ldr_imm_post_wb''),
   (''STRTIU'', ''exec_arm_str_imm_post_wb''),
   (''LDRTIU'', ''exec_arm_ldr_imm_post_wb''),
   (''STRBIU'', ''exec_arm_strb_imm_post_wb''),
   (''LDRBIU'', ''exec_arm_ldrb_imm_post_wb''),
   (''STRBTIU'', ''exec_arm_strb_imm_post_wb''),
   (''LDRBTIU'', ''exec_arm_ldrb_imm_post_wb''),
   (''STMDA'', ''exec_arm_stm''),
   (''LDMDA'', ''exec_arm_ldm''),
   (''STMDAW'', ''exec_arm_stm''),
   (''LDMDAW'', ''exec_arm_ldm''),
   (''STMSDA'', ''exec_arm_stm''),
   (''LDMSDA'', ''exec_arm_ldm''),
   (''STMSDAW'', ''exec_arm_stm''),
   (''LDMSDAW'', ''exec_arm_ldm''),
   (''STMIA'', ''exec_arm_stm''),
   (''LDMIA'', ''exec_arm_ldm''),
   (''STMIAW'', ''exec_arm_stm''),
   (''LDMIAW'', ''exec_arm_ldm''),
   (''STMSIA'', ''exec_arm_stm''),
   (''LDMSIA'', ''exec_arm_ldm''),
   (''STMSIAW'', ''exec_arm_stm''),
   (''LDMSIAW'', ''exec_arm_ldm''),
   (''STMDB'', ''exec_arm_stm''),
   (''LDMDB'', ''exec_arm_ldm''),
   (''STMDBW'', ''exec_arm_stm''),
   (''LDMDBW'', ''exec_arm_ldm''),
   (''STMSDB'', ''exec_arm_stm''),
   (''LDMSDB'', ''exec_arm_ldm''),
   (''STMSDBW'', ''exec_arm_stm''),
   (''LDMSDBW'', ''exec_arm_ldm''),
   (''STMIB'', ''exec_arm_stm''),
   (''LDMIB'', ''exec_arm_ldm''),
   (''STMIBW'', ''exec_arm_stm''),
   (''LDMIBW'', ''exec_arm_ldm''),
   (''STMSIB'', ''exec_arm_stm''),
   (''LDMSIB'', ''exec_arm_ldm''),
   (''STMSIBW'', ''exec_arm_stm''),
   (''LDMSIBW'', ''exec_arm_ldm''),
   (''B'', ''exec_arm_b''),
   (''BL'', ''exec_arm_bl''),
   (''STC'', ''exec_arm_stc_imm''),
   (''LDC'', ''exec_arm_ldc_imm''),
   (''CDP'', ''exec_arm_undefined''),
   (''MCR'', ''exec_arm_undefined''),
   (''MRC'', ''exec_arm_undefined''),
   (''SWI'', ''exec_arm_software_interrupt''),
   (''ILL'', ''exec_arm_undefined'')
  ]"

text \<open>
  The two parsed tables are dictionaries from keys to names; they are parameters here,
  since parsing reads files.  A line printed for a mismatch is modelled by the four
  values it is formatted from; the second component of the state is the counter
  \<open>mismatches\<close>, which the last line of \<open>main\<close> prints.
\<close>

record mismatch =
  key :: nat
  mgba_handler :: string
  mapped_handler :: string
  your_handler :: string

definition check_key ::
  "(nat \<times> string) list \<Rightarrow> (nat \<times> string) list \<Rightarrow> nat \<Rightarrow> mismatch list \<times> nat \<Rightarrow> mismatch list \<times> nat" where
  "check_key mgba_table your_table k st =
    (let mgba_h = dict_get mgba_table k ''ILL'';
         your_h = dict_get your_table k ''exec_arm_undefined'';
         mapped_h = dict_get mgba_to_yours mgba_h ''(unmapped)''
     in if mapped_h \<noteq> your_h
        then (fst st @ [\<lparr>key = k, mgba_handler = mgba_h, mapped_handler = mapped_h,
                         your_handler = your_h\<rparr>], snd st + 1)
        else st)"

definition main :: "(nat \<times> string) list \<Rightarrow> (nat \<times> string) list \<Rightarrow> mismatch list \<times> nat" where
  "main mgba_table your_table =
    (let all_keys = set (map fst mgba_table) \<union> set (map fst your_table)
     in fold (check_key mgba_table your_table) (sorted_list_of_set all_keys) ([], 0))"

section \<open>Properties of the classifier\<close>

subsection \<open>Bits and the data-processing name table\<close>

lemma bit01: "drop_bit k (x::int) AND 1 = 0 \<or> drop_bit k x AND 1 = 1"
  by (simp add: and_one_eq) presburger

lemma bit01_low: "(x::int) AND 1 = 0 \<or> x AND 1 = 1"
  using bit01 [of 0 x] by simp

lemma nibble_cases:
  "(x::int) AND 0xF \<in> {0, 1, 2, 3, 4, 5, 6, 7, 8, 9, 10, 11, 12, 13, 14, 15}"
proof -
  have "0 \<le> x AND 15" by simp
  moreover have "x AND 15 \<le> 15" using AND_upper2' [of 15 x 15] by simp
  ultimately show ?thesis by (simp; presburger)
qed

lemma dp_name_range:
  "the (map_of data_proc_map ((x::int) AND 0xF)) \<in> set (map snd data_proc_map)"
  using nibble_cases [of x] unfolding data_proc_map_def
  by (elim insertE emptyE) simp_all

text \<open>
  The subscript \<open>data_proc_map[opcode]\<close> never raises and the default \<open>Other DP\<close> of
  \<open>data_proc_map.get\<close> is never taken: the four-bit opcode is always a key.
\<close>

lemma dp_rule_eq:
  "(if (x::int) AND 0xF \<in> set [0x8, 0x9, 0xA, 0xB] then
      (case map_of data_proc_map (x AND 0xF) of
         None \<Rightarrow> Inl KeyError
       | Some name \<Rightarrow> Inr (name @ s))
    else
      Inr ((case map_of data_proc_map (x AND 0xF) of
              None \<Rightarrow> ''Other DP''
            | Some name \<Rightarrow> name) @ s))
   = Inr (the (map_of data_proc_map (x AND 0xF)) @ s)"
  using nibble_cases [of x] unfolding data_proc_map_def
  by (elim insertE emptyE) simp_all

lemma dp_names:
  assumes "n \<in> set (map snd data_proc_map)"
  shows "n @ ''_IMM'' \<in> set classify_results" and "n @ ''_REG'' \<in> set classify_results"
  using assms unfolding data_proc_map_def
  by (auto simp: classify_results_def)

subsection \<open>The range of the decision list\<close>

lemma if_memI: "(c \<Longrightarrow> a \<in> S) \<Longrightarrow> (\<not> c \<Longrightarrow> b \<in> S) \<Longrightarrow> (if c then a else b) \<in> S"
  by simp

lemma Inr_if_memI: "x \<in> S \<Longrightarrow> y \<in> S \<Longrightarrow> Inr (if c then x else y) \<in> Inr ` S"
  by simp

lemma Inr_app_if_memI:
  "n @ x \<in> S \<Longrightarrow> n @ y \<in> S \<Longrightarrow> Inr (n @ (if c then x else y)) \<in> Inr ` S"
  by simp

lemma Inr_memI: "x \<in> S \<Longrightarrow> (Inr x :: py_error + string) \<in> Inr ` S"
  by simp

text \<open>
  Every leaf of the decision list is examined under the tests that lead to it.  The
  leaves \<open>MRC\<close>, \<open>MCR\<close>, \<open>Other SDT\<close> and \<open>BX (possible)\<close> are the four whose tests
  contradict each other; all other leaves are in \<open>classify_results\<close>.
\<close>

lemma classify_range: "classify op d \<in> Inr ` set classify_results"
proof -
  define n where "n = the (map_of data_proc_map (drop_bit 1 op AND 0xF))"
  have "n \<in> set (map snd data_proc_map)"
    unfolding n_def by (rule dp_name_range)
  note n = dp_names [OF this]
  show ?thesis
    unfolding classify_def Let_def dp_rule_eq n_def [symmetric]
    apply (intro if_memI Inr_if_memI Inr_app_if_memI Inr_memI)
    apply (simp_all (no_asm) only: n simp_thms)
    apply (simp_all (no_asm) add: classify_results_def)
    using bit01 [of 5 op] bit01 [of 2 op] bit01_low [of op]
    apply (elim disjE; simp)+
    done
qed

lemma classify_Inr: "\<exists>c \<in> set classify_results. classify op d = Inr c"
  using classify_range [of op d] by auto

subsection \<open>Exact results on two regions\<close>

lemma coproc_region:
  assumes "drop_bit 7 op AND 1 = 1" "drop_bit 6 op AND 1 = 1" "drop_bit 4 op AND 1 = 0"
  shows "classify op d = Inr ((if op AND 1 = 1 then ''LDC'' else ''STC'') @
                              (if drop_bit 5 op AND 1 = 0 then ''_IMM'' else ''_REG''))"
  using assms bit01 [of 5 op] bit01 [of 2 op] bit01_low [of op]
  by (auto simp: classify_def Let_def)

lemma sdt_region:
  assumes "drop_bit 7 op AND 1 = 0" "drop_bit 6 op AND 1 = 1"
  shows "classify op 0 = Inr (
     (if op AND 1 = 0 then ''STR'' else ''LDR'') @
     (if drop_bit 2 op AND 1 = 0 then [] else ''B'') @
     (if drop_bit 5 op AND 1 = 0 then ''_IMM'' else ''_REG'') @
     (if drop_bit 4 op AND 1 = 0 then ''_POST_WB''
      else if drop_bit 1 op AND 1 = 1 then ''_PRE_WB'' else ''_PRE_NOWB''))"
  using assms bit01 [of 5 op] bit01 [of 2 op] bit01_low [of op]
  by (auto simp: classify_def Let_def)

subsection \<open>Facts about the returned categories\<close>

lemmas type_to_handler_lookup =
  arg_cong [where f = "\<lambda>d. map_of d k", OF type_to_handler_def,
            unfolded map_of_Cons_code map_of.simps(1)] for k

text \<open>
  Every returned category is a key of \<open>type_to_handler\<close>; its handler is neither the
  MRC nor the MCR handler, and it is the undefined-instruction handler exactly for the
  category \<open>Undefined/Reserved\<close>.
\<close>

lemma results_handlers:
  "list_all (\<lambda>c. case map_of type_to_handler c of None \<Rightarrow> False
      | Some h \<Rightarrow> h \<noteq> ''exec_arm_mrc'' \<and> h \<noteq> ''exec_arm_mcr'' \<and>
          ((h = ''exec_arm_undefined'') = (c = ''Undefined/Reserved''))) classify_results"
  unfolding classify_results_def
  by (simp only: list.pred_inject type_to_handler_lookup list.inject list.distinct char.inject
        simp_thms if_True if_False option.case cong: if_weak_cong)

lemma results_handler:
  assumes "c \<in> set classify_results"
  obtains h where "map_of type_to_handler c = Some h"
    and "h \<noteq> ''exec_arm_mrc''" and "h \<noteq> ''exec_arm_mcr''"
    and "(h = ''exec_arm_undefined'') = (c = ''Undefined/Reserved'')"
proof -
  from results_handlers have
    "\<forall>c \<in> set classify_results. case map_of type_to_handler c of None \<Rightarrow> False
      | Some h \<Rightarrow> h \<noteq> ''exec_arm_mrc'' \<and> h \<noteq> ''exec_arm_mcr'' \<and>
          ((h = ''exec_arm_undefined'') = (c = ''Undefined/Reserved''))"
    by (simp only: list_all_iff)
  from this assms have *: "case map_of type_to_handler c of None \<Rightarrow> False
      | Some h \<Rightarrow> h \<noteq> ''exec_arm_mrc'' \<and> h \<noteq> ''exec_arm_mcr'' \<and>
          ((h = ''exec_arm_undefined'') = (c = ''Undefined/Reserved''))"
    by (rule bspec)
  show thesis
  proof (cases "map_of type_to_handler c")
    case None
    with * show thesis by (simp only: option.case)
  next
    case (Some h)
    with * have "h \<noteq> ''exec_arm_mrc'' \<and> h \<noteq> ''exec_arm_mcr'' \<and>
          ((h = ''exec_arm_undefined'') = (c = ''Undefined/Reserved''))"
      by (simp only: option.case simp_thms)
    then show thesis
      using that [OF Some] by blast
  qed
qed

lemma results_no_post_nowb: "list_all (\<lambda>c. \<not> suffix ''_POST_NOWB'' c) classify_results"
  by (simp add: classify_results_def suffix_to_prefix rev_conv_fold del: rev.simps)

lemma results_not_dead:
  "''MRC'' \<notin> set classify_results \<and> ''MCR'' \<notin> set classify_results \<and>
   ''BX (possible)'' \<notin> set classify_results \<and> ''Other SDT'' \<notin> set classify_results \<and>
   list_all (\<lambda>c. \<not> prefix ''Other DP'' c) classify_results"
  by (simp add: classify_results_def)

subsection \<open>Toggling the byte-select bit\<close>

lemma bit_extract: "drop_bit k (x::int) AND 1 = of_bool (bit x k)"
  by (simp add: and_one_eq bit_iff_odd_drop_bit mod_2_eq_odd)

lemma bit_extract_low: "(x::int) AND 1 = of_bool (bit x 0)"
  using bit_extract [of 0 x] by simp

lemma bit_four: "bit (4::int) k \<longleftrightarrow> k = 2"
proof -
  have "(4::int) = 2 ^ 2" by simp
  then show ?thesis by (simp only: bit_exp_iff) auto
qed

lemma toggle_bit22:
  "drop_bit 7 (op XOR 4) AND 1 = drop_bit 7 (op::int) AND 1"
  "drop_bit 6 (op XOR 4) AND 1 = drop_bit 6 (op::int) AND 1"
  "drop_bit 5 (op XOR 4) AND 1 = drop_bit 5 (op::int) AND 1"
  "drop_bit 4 (op XOR 4) AND 1 = drop_bit 4 (op::int) AND 1"
  "(op XOR 4) AND 1 = op AND 1"
  by (simp_all only: bit_extract bit_extract_low bit_xor_iff bit_four) simp_all

section \<open>Properties of the builder\<close>

text \<open>
  The loop writes the indices \<open>0, 1, \<dots>, 511\<close> in this order, so the finished array is
  the list of the handlers of the keys in loop order.
\<close>

lemma new_idx_val: "m = 0 \<or> m = 1 \<Longrightarrow> new_idx (idx, m) = 2 * idx + m"
  by (auto simp: new_idx_def push_bit_eq_mult or_one_eq)

lemma build_keys_prefix:
  "map new_idx (concat (map (\<lambda>idx. map (\<lambda>mul_swp_bit. (idx, mul_swp_bit)) [0, 1]) (map int [0..<n])))
     = map int [0..<2 * n]"
proof (induction n)
  case 0
  show ?case by simp
next
  case (Suc n)
  have "[0..<2 * Suc n] = [0..<2 * n] @ [2 * n, 2 * n + 1]"
    by (simp add: upt_rec [of "2 * n" "Suc (Suc (2 * n))"] upt_rec [of "Suc (2 * n)" "Suc (Suc (2 * n))"] del: upt_Suc) (simp add: upt_conv_Cons)
  with Suc show ?case
    by (simp add: new_idx_val)
qed

lemma build_keys_idx: "map new_idx build_keys = map int [0..<512]"
  using build_keys_prefix [of 256] by (simp add: build_keys_def)

lemma length_build_keys: "length build_keys = 512"
  using arg_cong [OF build_keys_idx, of length] by simp

lemma build_step_Inr:
  "build_step k (Inr arr) =
     list_assign arr (new_idx k)
       (Some (dict_get type_to_handler (projr (classify (fst k) (snd k))) ''exec_arm_undefined''))"
proof -
  obtain c where "classify (fst k) (snd k) = Inr c"
    using classify_Inr [of "fst k" "snd k"] by blast
  then show ?thesis
    by (simp add: build_step_def)
qed

lemma fold_sequential:
  assumes "map new_idx ks = map int [s..<s + length ks]" and "s + length ks \<le> length arr"
  shows "fold build_step ks (Inr arr) =
    Inr (take s arr @
         map (\<lambda>k. Some (dict_get type_to_handler (projr (classify (fst k) (snd k))) ''exec_arm_undefined'')) ks @
         drop (s + length ks) arr)"
  using assms
proof (induction ks arbitrary: s arr)
  case Nil
  then show ?case by simp
next
  case (Cons k ks)
  let ?e = "Some (dict_get type_to_handler (projr (classify (fst k) (snd k))) ''exec_arm_undefined'')"
  have "[s..<s + length (k # ks)] = s # [Suc s..<Suc s + length ks]"
    by (subst upt_rec) simp
  with Cons.prems(1) have k: "new_idx k = int s"
    and ks: "map new_idx ks = map int [Suc s..<Suc s + length ks]"
    by (simp_all del: upt_Suc)
  from Cons.prems(2) have s: "s < length arr" and le: "Suc s + length ks \<le> length (arr[s := ?e])"
    by simp_all
  have step: "build_step k (Inr arr) = Inr (arr[s := ?e])"
    using s by (simp add: build_step_Inr k list_assign_def)
  have tk: "take (Suc s) (arr[s := ?e]) = take s arr @ [?e]"
    using s by (simp add: take_Suc_conv_app_nth)
  show ?case
    using Cons.IH [OF ks le] by (simp add: step tk)
qed

lemma handler_array_eq:
  "handler_array =
     Inr (map (\<lambda>k. Some (dict_get type_to_handler (projr (classify (fst k) (snd k))) ''exec_arm_undefined''))
            build_keys)"
  unfolding handler_array_def
  using fold_sequential [of build_keys 0 "replicate 512 None"]
  by (simp add: build_keys_idx length_build_keys)

lemma classify_projr:
  "classify op d = Inr (projr (classify op d)) \<and> projr (classify op d) \<in> set classify_results"
proof -
  obtain c where "c \<in> set classify_results" "classify op d = Inr c"
    using classify_Inr [of op d] by blast
  then show ?thesis by simp
qed

lemma dict_get_result:
  assumes "c \<in> set classify_results"
  shows "Some (dict_get type_to_handler c ''exec_arm_undefined'') = map_of type_to_handler c"
proof -
  obtain h where "map_of type_to_handler c = Some h"
    using assms by (rule results_handler)
  then show ?thesis
    by (simp add: dict_get_def)
qed

lemma handler_array_entries:
  obtains cs where "map (\<lambda>k. classify (fst k) (snd k)) build_keys = map Inr cs"
    and "set cs \<subseteq> set classify_results"
    and "handler_array = Inr (map (\<lambda>c. map_of type_to_handler c) cs)"
proof -
  define cs where "cs = map (\<lambda>k. projr (classify (fst k) (snd k))) build_keys"
  have 1: "map (\<lambda>k. classify (fst k) (snd k)) build_keys = map Inr cs"
    unfolding cs_def map_map comp_def
    by (rule map_cong [OF refl]) (rule classify_projr [THEN conjunct1])
  have 2: "set cs \<subseteq> set classify_results"
    unfolding cs_def set_map using classify_projr by blast
  have "map (\<lambda>k. Some (dict_get type_to_handler (projr (classify (fst k) (snd k))) ''exec_arm_undefined''))
            build_keys = map (\<lambda>c. map_of type_to_handler c) cs"
    unfolding cs_def map_map comp_def
    by (rule map_cong [OF refl]) (rule dict_get_result [OF classify_projr [THEN conjunct2]])
  then have 3: "handler_array = Inr (map (\<lambda>c. map_of type_to_handler c) cs)"
    by (simp only: handler_array_eq)
  from 1 2 3 show thesis ..
qed

lemma mem_neq: "c \<in> S \<Longrightarrow> x \<notin> S \<Longrightarrow> c \<noteq> x"
  by blast

lemma not_in_map: "(\<And>c. c \<in> set cs \<Longrightarrow> f c \<noteq> v) \<Longrightarrow> v \<notin> set (map f cs)"
  by auto

section \<open>The claims about the classifier and the builder\<close>


text \<open>
  Claim C8.  The four literal spot checks of the specification hold:
  \<open>classify(0x00, 1)\<close> is \<open>MUL\<close>, \<open>classify(0x00, 0)\<close> is \<open>AND_REG\<close>,
  \<open>classify(0xA0, 0)\<close> is \<open>B\<close> and \<open>classify(0xF0, 0)\<close> is \<open>SWI\<close>.
\<close>

theorem classify_spot_checks:
  "classify 0x00 1 = Inr ''MUL'' \<and> classify 0x00 0 = Inr ''AND_REG'' \<and>
   classify 0xA0 0 = Inr ''B'' \<and> classify 0xF0 0 = Inr ''SWI''"
  by (simp add: classify_def data_proc_map_def)

text \<open>
  Claim C2.  The key with bits 27-20 equal to \<open>0b00100100\<close> and discriminator 0 is
  not classified as \<open>BX (possible)\<close>: its two top bits and its discriminator are zero,
  so the data-processing rule, which stands before the placeholder rule in the decision
  list, returns \<open>SUB_IMM\<close>.
\<close>

theorem classify_bx_pattern_is_sub_imm:
  "classify 0x24 0 = Inr ''SUB_IMM'' \<and> classify 0x24 0 \<noteq> Inr ''BX (possible)''"
  by (simp add: classify_def data_proc_map_def)

text \<open>
  Claim C3.  \<open>classify\<close> is total: for every pair of arguments (in particular for the
  256 opcodes and the two discriminators) it returns a category string and never
  raises.  The builder loop writes the indices \<open>(idx << 1) | mul_swp_bit\<close> in the order
  \<open>0, 1, \<dots>, 511\<close>, each exactly once, and finishes with an array of length 512 in which
  no entry is the placeholder \<open>None\<close>.
\<close>

theorem classify_total_and_table_dense:
  "(\<exists>c. classify op d = Inr c) \<and>
   map new_idx build_keys = map int [0..<512] \<and>
   (\<exists>arr. handler_array = Inr arr \<and> length arr = 512 \<and> None \<notin> set arr)"
proof -
  have "\<exists>c. classify op d = Inr c"
    using classify_Inr [of op d] by blast
  moreover have "\<exists>arr. handler_array = Inr arr \<and> length arr = 512 \<and> None \<notin> set arr"
    by (auto simp: handler_array_eq length_build_keys)
  ultimately show ?thesis
    using build_keys_idx by simp
qed

text \<open>
  Claim C5.  For every key of the coprocessor region (b27 = 1, b26 = 1, b24 = 0) and
  every discriminator, \<open>classify\<close> returns the same category when the byte-select bit
  b22 of the opcode is toggled; the category is \<open>LDC\<close> or \<open>STC\<close> according to b20 with
  suffix \<open>_IMM\<close> or \<open>_REG\<close> according to b25.
\<close>

theorem coprocessor_byte_select_invariant:
  "drop_bit 7 op AND 1 = 1 \<and> drop_bit 6 op AND 1 = 1 \<and> drop_bit 4 op AND 1 = 0 \<longrightarrow>
   classify (op XOR 4) d = classify op d \<and>
   classify op d = Inr ((if op AND 1 = 1 then ''LDC'' else ''STC'') @
                        (if drop_bit 5 op AND 1 = 0 then ''_IMM'' else ''_REG''))"
proof (intro impI, elim conjE)
  assume a: "drop_bit 7 op AND 1 = 1" "drop_bit 6 op AND 1 = 1" "drop_bit 4 op AND 1 = 0"
  then have "drop_bit 7 (op XOR 4) AND 1 = 1" "drop_bit 6 (op XOR 4) AND 1 = 1"
    "drop_bit 4 (op XOR 4) AND 1 = 0"
    by (simp_all only: toggle_bit22)
  from coproc_region [OF this, of d] coproc_region [OF a, of d]
  show "classify (op XOR 4) d = classify op d \<and>
   classify op d = Inr ((if op AND 1 = 1 then ''LDC'' else ''STC'') @
                        (if drop_bit 5 op AND 1 = 0 then ''_IMM'' else ''_REG''))"
    by (simp only: toggle_bit22 simp_thms)
qed

theorem coprocessor_byte_select_invariant_witness:
  "drop_bit 7 (0xC1::int) AND 1 = 1 \<and> drop_bit 6 (0xC1::int) AND 1 = 1 \<and>
   drop_bit 4 (0xC1::int) AND 1 = 0 \<and>
   classify (0xC1 XOR 4) 1 = classify 0xC1 1 \<and> classify 0xC1 1 = Inr ''LDC_IMM''"
  using coprocessor_byte_select_invariant [of "0xC1" 1] by simp

text \<open>
  Claim C6.  For every single-data-transfer key (b27 = 0, b26 = 1, discriminator 0)
  with the pre/post-index bit b24 = 0, the category is built from b20, b22 and b25 only
  and ends in \<open>_POST_WB\<close>, whatever the writeback bit b21 is; and for no arguments at
  all does \<open>classify\<close> return a category ending in \<open>_POST_NOWB\<close>.
\<close>

theorem post_index_always_writeback:
  "(drop_bit 7 op AND 1 = 0 \<and> drop_bit 6 op AND 1 = 1 \<and> drop_bit 4 op AND 1 = 0 \<longrightarrow>
      classify op 0 = Inr ((if op AND 1 = 0 then ''STR'' else ''LDR'') @
                           (if drop_bit 2 op AND 1 = 0 then [] else ''B'') @
                           (if drop_bit 5 op AND 1 = 0 then ''_IMM'' else ''_REG'') @
                           ''_POST_WB'')) \<and>
   (\<exists>c. classify op' d = Inr c \<and> \<not> suffix ''_POST_NOWB'' c)"
proof -
  have "\<exists>c. classify op' d = Inr c \<and> \<not> suffix ''_POST_NOWB'' c"
    using classify_Inr [of op' d] results_no_post_nowb by (auto simp: list_all_iff)
  then show ?thesis
    using sdt_region [of op] by simp
qed

theorem post_index_always_writeback_witness:
  "drop_bit 7 (0x42::int) AND 1 = 0 \<and> drop_bit 6 (0x42::int) AND 1 = 1 \<and>
   drop_bit 4 (0x42::int) AND 1 = 0 \<and> drop_bit 1 (0x42::int) AND 1 = 1 \<and>
   classify 0x42 0 = Inr ''STR_IMM_POST_WB'' \<and>
   (\<exists>c. classify 0x52 0 = Inr c \<and> \<not> suffix ''_POST_NOWB'' c)"
  using post_index_always_writeback [of "0x42" "0x52" 0] by simp

text \<open>
  Claim C9.  \<open>classify\<close> never returns \<open>MRC\<close> or \<open>MCR\<close>, and the handlers
  \<open>exec_arm_mrc\<close> and \<open>exec_arm_mcr\<close> occur nowhere in the built array.
\<close>

theorem mrc_mcr_unreachable:
  "classify op d \<noteq> Inr ''MRC'' \<and> classify op d \<noteq> Inr ''MCR'' \<and>
   (\<exists>arr. handler_array = Inr arr \<and>
          Some ''exec_arm_mrc'' \<notin> set arr \<and> Some ''exec_arm_mcr'' \<notin> set arr)"
proof -
  obtain c where c: "c \<in> set classify_results" and r: "classify op d = Inr c"
    using classify_Inr [of op d] by blast
  have "c \<noteq> ''MRC''"
    using c results_not_dead [THEN conjunct1] by (rule mem_neq)
  moreover have "c \<noteq> ''MCR''"
    using c results_not_dead [THEN conjunct2, THEN conjunct1] by (rule mem_neq)
  ultimately have 1: "classify op d \<noteq> Inr ''MRC''" and 2: "classify op d \<noteq> Inr ''MCR''"
    unfolding r by (simp_all only: sum.inject simp_thms)
  obtain cs where cs: "set cs \<subseteq> set classify_results"
    and arr: "handler_array = Inr (map (\<lambda>c. map_of type_to_handler c) cs)"
    by (rule handler_array_entries)
  have *: "map_of type_to_handler x \<noteq> Some ''exec_arm_mrc'' \<and>
        map_of type_to_handler x \<noteq> Some ''exec_arm_mcr''" if "x \<in> set cs" for x
  proof -
    from that cs have "x \<in> set classify_results" by (rule subsetD [rotated])
    then obtain h where "map_of type_to_handler x = Some h"
      and "h \<noteq> ''exec_arm_mrc''" and "h \<noteq> ''exec_arm_mcr''"
      by (rule results_handler)
    then show ?thesis by (simp only: option.inject simp_thms)
  qed
  have "Some ''exec_arm_mrc'' \<notin> set (map (\<lambda>c. map_of type_to_handler c) cs)"
    by (rule not_in_map) (rule * [THEN conjunct1])
  moreover have "Some ''exec_arm_mcr'' \<notin> set (map (\<lambda>c. map_of type_to_handler c) cs)"
    by (rule not_in_map) (rule * [THEN conjunct2])
  ultimately have 3: "\<exists>arr. handler_array = Inr arr \<and>
          Some ''exec_arm_mrc'' \<notin> set arr \<and> Some ''exec_arm_mcr'' \<notin> set arr"
    using arr by blast
  from 1 2 3 show ?thesis by (intro conjI)
qed

text \<open>
  Claim C10.  The category \<open>classify\<close> returns is always a key of \<open>type_to_handler\<close>; it
  is never \<open>Other SDT\<close> and never starts with \<open>Other DP\<close>; its handler is
  \<open>exec_arm_undefined\<close> exactly when the category is \<open>Undefined/Reserved\<close>.  So every
  entry of the built array is the dictionary's own value for the category of its key
  (the default of \<open>.get\<close> is never taken), and an entry is \<open>exec_arm_undefined\<close>
  exactly where the category of the key is \<open>Undefined/Reserved\<close>.
\<close>

theorem categories_are_handler_keys:
  "(\<exists>c h. classify op d = Inr c \<and> map_of type_to_handler c = Some h \<and>
          c \<noteq> ''Other SDT'' \<and> \<not> prefix ''Other DP'' c \<and>
          ((h = ''exec_arm_undefined'') = (c = ''Undefined/Reserved''))) \<and>
   (\<exists>cs. map (\<lambda>k. classify (fst k) (snd k)) build_keys = map Inr cs \<and>
         handler_array = Inr (map (\<lambda>c. map_of type_to_handler c) cs) \<and>
         None \<notin> set (map (\<lambda>c. map_of type_to_handler c) cs) \<and>
         map (\<lambda>c. map_of type_to_handler c = Some ''exec_arm_undefined'') cs =
           map (\<lambda>c. c = ''Undefined/Reserved'') cs)"
proof -
  have und: "(map_of type_to_handler x = Some ''exec_arm_undefined'') = (x = ''Undefined/Reserved'')"
    and key: "map_of type_to_handler x \<noteq> None"
    if "x \<in> set classify_results" for x
  proof -
    from that obtain h where h: "map_of type_to_handler x = Some h"
      and u: "(h = ''exec_arm_undefined'') = (x = ''Undefined/Reserved'')"
      by (rule results_handler)
    from u show "(map_of type_to_handler x = Some ''exec_arm_undefined'') = (x = ''Undefined/Reserved'')"
      unfolding h by (simp only: option.inject)
    show "map_of type_to_handler x \<noteq> None"
      unfolding h by (rule option.distinct(2))
  qed
  obtain c where c: "c \<in> set classify_results" and r: "classify op d = Inr c"
    using classify_Inr [of op d] by blast
  have sdt: "c \<noteq> ''Other SDT''"
    using c results_not_dead [THEN conjunct2, THEN conjunct2, THEN conjunct2, THEN conjunct1]
    by (rule mem_neq)
  from results_not_dead [THEN conjunct2, THEN conjunct2, THEN conjunct2, THEN conjunct2]
  have "\<forall>x \<in> set classify_results. \<not> prefix ''Other DP'' x"
    by (simp only: list_all_iff)
  from this c have dp: "\<not> prefix ''Other DP'' c"
    by (rule bspec)
  obtain h where h: "map_of type_to_handler c = Some h"
    and u: "(h = ''exec_arm_undefined'') = (c = ''Undefined/Reserved'')"
    using c by (rule results_handler)
  from r h sdt dp u have first: "\<exists>c h. classify op d = Inr c \<and> map_of type_to_handler c = Some h \<and>
          c \<noteq> ''Other SDT'' \<and> \<not> prefix ''Other DP'' c \<and>
          ((h = ''exec_arm_undefined'') = (c = ''Undefined/Reserved''))"
    by (intro exI conjI)
  obtain cs where cs1: "map (\<lambda>k. classify (fst k) (snd k)) build_keys = map Inr cs"
    and cs2: "set cs \<subseteq> set classify_results"
    and cs3: "handler_array = Inr (map (\<lambda>c. map_of type_to_handler c) cs)"
    by (rule handler_array_entries)
  have in_res: "x \<in> set classify_results" if "x \<in> set cs" for x
    using cs2 that by (rule subsetD)
  have cs4: "None \<notin> set (map (\<lambda>c. map_of type_to_handler c) cs)"
    by (rule not_in_map) (rule key [OF in_res])
  have cs5: "map (\<lambda>c. map_of type_to_handler c = Some ''exec_arm_undefined'') cs =
           map (\<lambda>c. c = ''Undefined/Reserved'') cs"
    by (rule map_cong [OF refl]) (rule und [OF in_res])
  from cs1 cs3 cs4 cs5 have second: "\<exists>cs. map (\<lambda>k. classify (fst k) (snd k)) build_keys = map Inr cs \<and>
         handler_array = Inr (map (\<lambda>c. map_of type_to_handler c) cs) \<and>
         None \<notin> set (map (\<lambda>c. map_of type_to_handler c) cs) \<and>
         map (\<lambda>c. map_of type_to_handler c = Some ''exec_arm_undefined'') cs =
           map (\<lambda>c. c = ''Undefined/Reserved'') cs"
    by (intro exI conjI)
  from first second show ?thesis ..
qed

end
